theory Spec2Isabelle
  imports Main
begin

section \<open>Python values\<close>

text \<open>
  Components, client messages and component values are untyped Python objects. The
  development covers \<open>None\<close>, booleans, (unbounded) integers, strings, lists and
  dictionaries; a dictionary is an association list in insertion order. A string is a
  list of code points below 256, one \<open>char\<close> each. Strings with other code points,
  floating-point numbers, foreign objects (data frames, figures) and values nested
  more deeply than the interpreter's recursion limit allows are outside the value
  universe.
\<close>

datatype pyval =
    PNone
  | PBool bool
  | PInt int
  | PStr string
  | PList "pyval list"
  | PDict "(pyval \<times> pyval) list"

text \<open>Exceptions (subclasses of Python's \<open>Exception\<close>) that the code can meet.\<close>

datatype exn =
    RuntimeError string
  | FileNotFoundError string
  | TypeError
  | ValueError
  | AttributeError
  | KeyError string
  | OtherException string

subsection \<open>Dictionary keys\<close>

text \<open>
  A dictionary key must be hashable; lists and dictionaries are not, and using one as a
  key raises \<open>TypeError\<close>. \<open>True\<close> and \<open>1\<close> (and \<open>False\<close> and \<open>0\<close>) are equal and
  hash alike, so they are the same key.
\<close>

datatype pykey = KNone | KInt int | KStr string

fun hash_key :: "pyval \<Rightarrow> pykey option" where
  "hash_key PNone = Some KNone"
| "hash_key (PBool b) = Some (KInt (if b then 1 else 0))"
| "hash_key (PInt i) = Some (KInt i)"
| "hash_key (PStr s) = Some (KStr s)"
| "hash_key (PList xs) = None"
| "hash_key (PDict kvs) = None"

text \<open>\<open>d.get(s)\<close> and \<open>s in d\<close> for a string literal \<open>s\<close>: only the string \<open>s\<close> equals it.\<close>

definition dict_get :: "(pyval \<times> pyval) list \<Rightarrow> string \<Rightarrow> pyval option" where
  "dict_get d s = map_of d (PStr s)"

definition dict_get_default :: "(pyval \<times> pyval) list \<Rightarrow> string \<Rightarrow> pyval \<Rightarrow> pyval" where
  "dict_get_default d s dflt = (case dict_get d s of Some v \<Rightarrow> v | None \<Rightarrow> dflt)"

subsection \<open>\<open>str\<close>, \<open>repr\<close>, \<open>len\<close> and truthiness\<close>

fun nat_to_dec :: "nat \<Rightarrow> string" where
  "nat_to_dec n =
     (if n < 10 then [''0123456789'' ! n]
      else nat_to_dec (n div 10) @ [''0123456789'' ! (n mod 10)])"

text \<open>
  The conversion of an integer to decimal text raises \<open>ValueError\<close> when the integer has
  more digits, the sign not counted, than the interpreter's limit (4300 by default).
\<close>

definition max_str_digits :: nat where
  "max_str_digits = 4300"

definition int_to_dec :: "int \<Rightarrow> exn + string" where
  "int_to_dec i =
     (let digits = nat_to_dec (nat \<bar>i\<bar>)
      in if max_str_digits < length digits then Inl ValueError
         else Inr (if i < 0 then CHR ''-'' # digits else digits))"

definition squote :: char where "squote = CHR 0x27"
definition dquote :: char where "dquote = CHR 0x22"
definition backslash :: char where "backslash = CHR 0x5C"

definition hex2 :: "nat \<Rightarrow> string" where
  "hex2 n = [''0123456789abcdef'' ! ((n div 16) mod 16), ''0123456789abcdef'' ! (n mod 16)]"

text \<open>
  The printable code points below 256: all but the control characters 0 to 31 and 127
  to 159, the no-break space 160 and the soft hyphen 173.
\<close>

definition printable :: "char \<Rightarrow> bool" where
  "printable c =
     (let n = (of_char c :: nat)
      in (32 \<le> n \<and> n < 127) \<or> (161 \<le> n \<and> n \<noteq> 173))"

text \<open>One character of a string's \<open>repr\<close> inside the quote \<open>q\<close>.\<close>

definition repr_char :: "char \<Rightarrow> char \<Rightarrow> string" where
  "repr_char q c =
     (if c = q \<or> c = backslash then [backslash, c]
      else if c = CHR 0x09 then [backslash, CHR ''t'']
      else if c = CHR 0x0A then [backslash, CHR ''n'']
      else if c = CHR 0x0D then [backslash, CHR ''r'']
      else if \<not> printable c then [backslash, CHR ''x''] @ hex2 (of_char c)
      else [c])"

definition repr_str :: "string \<Rightarrow> string" where
  "repr_str s =
     (let q = (if squote \<in> set s \<and> dquote \<notin> set s then dquote else squote)
      in [q] @ concat (map (repr_char q) s) @ [q])"

fun join :: "string \<Rightarrow> string list \<Rightarrow> string" where
  "join sep [] = []"
| "join sep [x] = x"
| "join sep (x # y # ys) = x @ sep @ join sep (y # ys)"

text \<open>The results of a list of conversions, or the first exception among them.\<close>

fun collect :: "(exn + 'a) list \<Rightarrow> exn + 'a list" where
  "collect [] = Inr []"
| "collect (Inl e # rs) = Inl e"
| "collect (Inr x # rs) = (case collect rs of Inl e \<Rightarrow> Inl e | Inr xs \<Rightarrow> Inr (x # xs))"

text \<open>One item \<open>key: value\<close> of a dictionary's \<open>repr\<close>, from the two conversions.\<close>

definition item_repr :: "exn + string \<Rightarrow> exn + string \<Rightarrow> exn + string" where
  "item_repr rk rv =
     (case rk of
        Inl e \<Rightarrow> Inl e
      | Inr k \<Rightarrow> (case rv of Inl e \<Rightarrow> Inl e | Inr v \<Rightarrow> Inr (k @ '': '' @ v)))"

definition bracketed :: "string \<Rightarrow> string \<Rightarrow> exn + string list \<Rightarrow> exn + string" where
  "bracketed left right r =
     (case r of Inl e \<Rightarrow> Inl e | Inr items \<Rightarrow> Inr (left @ join '', '' items @ right))"

fun py_repr :: "pyval \<Rightarrow> exn + string" where
  "py_repr PNone = Inr ''None''"
| "py_repr (PBool b) = Inr (if b then ''True'' else ''False'')"
| "py_repr (PInt i) = int_to_dec i"
| "py_repr (PStr s) = Inr (repr_str s)"
| "py_repr (PList xs) = bracketed ''['' '']'' (collect (map py_repr xs))"
| "py_repr (PDict kvs) =
     bracketed ''{'' ''}'' (collect (map (\<lambda>kv. item_repr (py_repr (fst kv)) (py_repr (snd kv))) kvs))"

text \<open>\<open>str(v)\<close>, which an f-string applies to each \<open>{v}\<close>.\<close>

definition py_str :: "pyval \<Rightarrow> exn + string" where
  "py_str v = (case v of PStr s \<Rightarrow> Inr s | _ \<Rightarrow> py_repr v)"

text \<open>The text of \<open>v\<close> handed to the rest of an f-string, or the exception of the conversion.\<close>

definition on_str :: "pyval \<Rightarrow> (string \<Rightarrow> exn + 'a) \<Rightarrow> exn + 'a" where
  "on_str v k = (case py_str v of Inl e \<Rightarrow> Inl e | Inr s \<Rightarrow> k s)"

text \<open>
  \<open>len(v)\<close>: the number of code points, of elements or of entries; \<open>TypeError\<close> for a
  value without a length.
\<close>

fun py_len :: "pyval \<Rightarrow> exn + nat" where
  "py_len (PStr s) = Inr (length s)"
| "py_len (PList xs) = Inr (length xs)"
| "py_len (PDict kvs) = Inr (length kvs)"
| "py_len v = Inl TypeError"

fun py_truthy :: "pyval \<Rightarrow> bool" where
  "py_truthy PNone = False"
| "py_truthy (PBool b) = b"
| "py_truthy (PInt i) = (i \<noteq> 0)"
| "py_truthy (PStr s) = (s \<noteq> [])"
| "py_truthy (PList xs) = (xs \<noteq> [])"
| "py_truthy (PDict kvs) = (kvs \<noteq> [])"

section \<open>Console formatting: \<open>ScriptService._print_component\<close>\<close>

text \<open>
  A printed line is a list of code points; \<open>cps\<close> gives the code points of a string.
  The two glyphs of the checkbox line are U+2713 and U+2717.
\<close>

definition cps :: "string \<Rightarrow> nat list" where
  "cps s = map of_char s"

definition check_mark :: "nat list" where "check_mark = [0x2713]"
definition cross_mark :: "nat list" where "cross_mark = [0x2717]"

text \<open>
  The method prints one line, or raises before printing: \<open>len(data)\<close> of a table and the
  conversion of a field to text can raise. The result is the printed line or the
  exception; writing the line to the console is taken to succeed. The row count of a
  table is a length, which is below the limit of the conversion.
\<close>

definition print_component :: "pyval \<Rightarrow> exn + nat list" where
  "print_component component =
     (case component of
        PStr s \<Rightarrow> Inr (cps (''[html] '' @ s))
      | PDict d \<Rightarrow>
          (let component_type = dict_get_default d ''type'' PNone in
           if component_type = PStr ''text'' then
             on_str (dict_get_default d ''markdown'' (PStr '''')) (\<lambda>markdown.
               Inr (cps (''[text] '' @ markdown)))
           else if component_type = PStr ''slider'' then
             (let label = dict_get_default d ''label'' (PStr '''');
                  val = dict_get_default d ''value'' (PStr '''')
              in on_str label (\<lambda>l. on_str val (\<lambda>v.
                   Inr (cps (''[slider] '' @ l @ '': '' @ v)))))
           else if component_type = PStr ''plot'' then
             Inr (cps ''[plot] Plot would be displayed in browser mode'')
           else if component_type = PStr ''table'' then
             (let data = dict_get_default d ''data'' (PList []);
                  title = dict_get_default d ''title'' (PStr ''Table'')
              in on_str title (\<lambda>t.
                   case py_len data of
                     Inl e \<Rightarrow> Inl e
                   | Inr n \<Rightarrow> Inr (cps (''[table] '' @ t @ '' ('' @ nat_to_dec n @ '' rows)''))))
           else if component_type = PStr ''checkbox'' then
             (let label = dict_get_default d ''label'' (PStr '''');
                  val = dict_get_default d ''value'' (PBool False)
              in on_str label (\<lambda>l.
                   Inr (cps (''[checkbox] '' @ l @ '': '') @
                        (if py_truthy val then check_mark else cross_mark))))
           else if component_type = PStr ''selectbox'' then
             (let label = dict_get_default d ''label'' (PStr '''');
                  val = dict_get_default d ''value'' (PStr '''')
              in on_str label (\<lambda>l. on_str val (\<lambda>v.
                   Inr (cps (''[selectbox] '' @ l @ '': '' @ v)))))
           else
             (let component_id = dict_get_default d ''id'' (PStr ''unknown'')
              in on_str component_type (\<lambda>t. on_str component_id (\<lambda>i.
                   Inr (cps (''['' @ t @ ''] Component ID: '' @ i))))))
      | other \<Rightarrow> on_str other (\<lambda>t. Inr (cps (''[unknown] '' @ t))))"

section \<open>The headless service: \<open>ScriptService\<close>\<close>

subsection \<open>State\<close>

text \<open>
  The data-access collaborator \<open>DataManager\<close> is not part of these sources. An object of
  it is identified by the arguments it was constructed with, and whether a construction
  raises is a parameter \<open>ctor\<close> of the operations that construct one: \<open>ctor args = None\<close>
  when the constructor returns, \<open>Some e\<close> when it raises the exception \<open>e\<close>.
\<close>

datatype dm_args = NoArgs | Paths string string

datatype data_manager = DataManager dm_args

type_synonym dm_ctor = "dm_args \<Rightarrow> exn option"

datatype level = DEBUG | INFO | ERROR

text \<open>
  A logging call: its level and message. \<open>LogExc\<close> is a call whose message ends with the
  text of a caught exception (\<open>f"...: {e}"\<close>, \<open>exc_info=True\<close>); the exception is kept as a
  value after the fixed part of the message.
\<close>

datatype log_record = Log level string | LogExc level string exn

text \<open>The instance attributes set by \<open>__init__\<close>.\<close>

record service =
  component_states :: "pykey \<rightharpoonup> pyval"
  rendered_components :: "pyval list"
  data_manager :: "data_manager option"
  branding_manager :: "unit option"
  script_path :: "string option"
  is_shutting_down :: bool
  websocket_connections :: "(pyval \<times> pyval) list"
  script_runners :: "(pyval \<times> pyval) list"

text \<open>
  The process: the class attribute \<open>ScriptService._instance\<close> (a reference or \<open>None\<close>), the
  heap of service objects by address, the lines printed to the console and the logging
  calls made. The locks are left out: execution is sequential, and \<open>with self._lock\<close>
  acquires a free lock and releases it.
\<close>

type_synonym addr = nat

record process =
  cls_instance :: "addr option"
  objects :: "addr \<Rightarrow> service"
  next_free :: addr
  stdout :: "nat list list"
  log_records :: "log_record list"

text \<open>A call returns a value or raises, and leaves a process state either way.\<close>

type_synonym 'a outcome = "(exn + 'a) \<times> process"

definition upd :: "addr \<Rightarrow> (service \<Rightarrow> service) \<Rightarrow> process \<Rightarrow> process" where
  "upd self f p = p\<lparr>objects := (objects p)(self := f (objects p self))\<rparr>"

definition emit :: "log_record \<Rightarrow> process \<Rightarrow> process" where
  "emit r p = p\<lparr>log_records := log_records p @ [r]\<rparr>"

definition print_line :: "nat list \<Rightarrow> process \<Rightarrow> process" where
  "print_line l p = p\<lparr>stdout := stdout p @ [l]\<rparr>"

subsection \<open>Construction and the singleton\<close>

definition new_service :: service where
  "new_service =
     \<lparr>component_states = Map.empty, rendered_components = [], data_manager = None,
      branding_manager = None, script_path = None, is_shutting_down = False,
      websocket_connections = [], script_runners = []\<rparr>"

text \<open>\<open>cls()\<close>: a fresh object, initialised by \<open>__init__\<close>.\<close>

definition construct :: "process \<Rightarrow> addr \<times> process" where
  "construct p =
     (next_free p,
      emit (Log INFO ''Initialized ScriptService for headless mode'')
        (p\<lparr>objects := (objects p)(next_free p := new_service),
           next_free := Suc (next_free p)\<rparr>))"

text \<open>\<open>os.path.dirname\<close> and \<open>os.path.join\<close> of two parts, as \<open>posixpath\<close> computes them.\<close>

definition path_dirname :: "string \<Rightarrow> string" where
  "path_dirname p =
     (let head = rev (dropWhile (\<lambda>c. c \<noteq> CHR ''/'') (rev p))
      in if head \<noteq> [] \<and> \<not> list_all (\<lambda>c. c = CHR ''/'') head
         then rev (dropWhile (\<lambda>c. c = CHR ''/'') (rev head))
         else head)"

definition path_join :: "string \<Rightarrow> string \<Rightarrow> string" where
  "path_join a b =
     (if b \<noteq> [] \<and> hd b = CHR ''/'' then b
      else if a = [] \<or> last a = CHR ''/'' then a @ b
      else a @ ''/'' @ b)"

definition initialize_data_manager :: "dm_ctor \<Rightarrow> addr \<Rightarrow> string \<Rightarrow> process \<Rightarrow> unit outcome" where
  "initialize_data_manager ctor self path p =
     (let script_dir = path_dirname path;
          preswald_path = path_join script_dir ''preswald.toml'';
          secrets_path = path_join script_dir ''secrets.toml''
      in case ctor (Paths preswald_path secrets_path) of
           None \<Rightarrow>
             (Inr (), upd self (\<lambda>s. s\<lparr>data_manager := Some (DataManager (Paths preswald_path secrets_path))\<rparr>) p)
         | Some e \<Rightarrow>
             (let p1 = emit (LogExc ERROR ''Error initializing data manager: '' e) p
              in case ctor NoArgs of
                   None \<Rightarrow> (Inr (), upd self (\<lambda>s. s\<lparr>data_manager := Some (DataManager NoArgs)\<rparr>) p1)
                 | Some e' \<Rightarrow> (Inl e', p1)))"

text \<open>\<open>if script_path:\<close> holds for a non-empty string, not for \<open>None\<close> or the empty string.\<close>

definition initialize :: "dm_ctor \<Rightarrow> string option \<Rightarrow> process \<Rightarrow> addr outcome" where
  "initialize ctor path p =
     (case cls_instance p of
        Some a \<Rightarrow> (Inr a, p)
      | None \<Rightarrow>
          (let (a, p1) = construct p;
               p2 = p1\<lparr>cls_instance := Some a\<rparr>
           in case path of
                None \<Rightarrow> (Inr a, p2)
              | Some s \<Rightarrow>
                  if s = [] then (Inr a, p2)
                  else
                    (case initialize_data_manager ctor a s (upd a (\<lambda>s'. s'\<lparr>script_path := Some s\<rparr>) p2) of
                       (Inl e, p3) \<Rightarrow> (Inl e, p3)
                     | (Inr u, p3) \<Rightarrow> (Inr a, p3))))"

definition get_instance :: "process \<Rightarrow> exn + addr" where
  "get_instance p =
     (case cls_instance p of
        None \<Rightarrow> Inl (RuntimeError ''ScriptService not initialized. Did you call initialize()?'')
      | Some a \<Rightarrow> Inr a)"

subsection \<open>The \<open>script_path\<close> property\<close>

definition script_path_get :: "addr \<Rightarrow> process \<Rightarrow> string option" where
  "script_path_get self p = script_path (objects p self)"

text \<open>The setter asks the file system (\<open>os.path.exists\<close>, the parameter \<open>exists\<close>).\<close>

definition script_path_set :: "(string \<Rightarrow> bool) \<Rightarrow> dm_ctor \<Rightarrow> addr \<Rightarrow> string \<Rightarrow> process \<Rightarrow> unit outcome" where
  "script_path_set exists ctor self path p =
     (if \<not> exists path then (Inl (FileNotFoundError (''Script not found: '' @ path)), p)
      else initialize_data_manager ctor self path (upd self (\<lambda>s. s\<lparr>script_path := Some path\<rparr>) p))"

subsection \<open>Components and their state\<close>

definition append_component :: "addr \<Rightarrow> pyval \<Rightarrow> process \<Rightarrow> unit outcome" where
  "append_component self component p =
     (let p1 = upd self (\<lambda>s. s\<lparr>rendered_components := rendered_components s @ [component]\<rparr>) p;
          caught = (\<lambda>e q. (Inr (), emit (LogExc ERROR ''Error processing component in headless mode: '' e) q))
      in case print_component component of
           Inl e \<Rightarrow> caught e p1
         | Inr line \<Rightarrow>
             (let p2 = print_line line p1
              in case component of
                   PDict d \<Rightarrow>
                     (case dict_get d ''id'' of
                        None \<Rightarrow> (Inr (), p2)
                      | Some i \<Rightarrow>
                          (case dict_get d ''value'' of
                             None \<Rightarrow> (Inr (), p2)
                           | Some v \<Rightarrow>
                               (case hash_key i of
                                  None \<Rightarrow> caught TypeError p2
                                | Some k \<Rightarrow>
                                    (Inr (), upd self (\<lambda>s. s\<lparr>component_states := (component_states s)(k \<mapsto> v)\<rparr>) p2))))
                 | other \<Rightarrow> (Inr (), p2)))"

definition get_rendered_components :: "addr \<Rightarrow> process \<Rightarrow> pyval" where
  "get_rendered_components self p = PDict [(PStr ''rows'', PList (rendered_components (objects p self)))]"

text \<open>
  The message of a \<open>logger.debug\<close> call is an f-string, built before the call is made:
  its two fields are converted to text in turn, and an exception of a conversion leaves
  the method.
\<close>

definition debug_message :: "string \<Rightarrow> pyval \<Rightarrow> string \<Rightarrow> pyval \<Rightarrow> exn + string" where
  "debug_message prefix a sep b =
     on_str a (\<lambda>x. on_str b (\<lambda>y. Inr (prefix @ x @ sep @ y)))"

definition get_component_state :: "addr \<Rightarrow> pyval \<Rightarrow> pyval \<Rightarrow> process \<Rightarrow> pyval outcome" where
  "get_component_state self component_id dflt p =
     (case hash_key component_id of
        None \<Rightarrow> (Inl TypeError, p)
      | Some k \<Rightarrow>
          (let val = (case component_states (objects p self) k of Some v \<Rightarrow> v | None \<Rightarrow> dflt)
           in case debug_message ''[STATE] Getting state for '' component_id '': '' val of
                Inl e \<Rightarrow> (Inl e, p)
              | Inr message \<Rightarrow> (Inr val, emit (Log DEBUG message) p)))"

definition clear_components :: "addr \<Rightarrow> process \<Rightarrow> process" where
  "clear_components self p = upd self (\<lambda>s. s\<lparr>rendered_components := []\<rparr>) p"

subsection \<open>The client interface\<close>

text \<open>
  The four operations are coroutines; a call here is the awaited call. None of them
  suspends, so it runs from start to end. A client identifier is a string
  (\<open>client_id: str\<close>).
\<close>

definition register_client :: "addr \<Rightarrow> string \<Rightarrow> process \<Rightarrow> pyval outcome" where
  "register_client self client_id p =
     (Inr PNone, emit (Log DEBUG (''Client registration ignored in headless mode: '' @ client_id)) p)"

definition unregister_client :: "addr \<Rightarrow> string \<Rightarrow> process \<Rightarrow> pyval outcome" where
  "unregister_client self client_id p = (Inr PNone, p)"

text \<open>
  The loop over \<open>states.items()\<close>: each pair is written to the store, then the message
  of its \<open>logger.debug\<close> call is built; an exception of a conversion ends the loop with
  the pair written.
\<close>

fun update_states :: "addr \<Rightarrow> (pyval \<times> pyval) list \<Rightarrow> process \<Rightarrow> pyval outcome" where
  "update_states self [] p = (Inr PNone, p)"
| "update_states self (item # rest) p =
     (case hash_key (fst item) of
        None \<Rightarrow> (Inl TypeError, p)
      | Some k \<Rightarrow>
          (case debug_message ''Updated component state: '' (fst item) '' = '' (snd item) of
             Inl e \<Rightarrow>
               (Inl e, upd self (\<lambda>s. s\<lparr>component_states := (component_states s)(k \<mapsto> snd item)\<rparr>) p)
           | Inr message \<Rightarrow>
               update_states self rest
                 (emit (Log DEBUG message)
                    (upd self (\<lambda>s. s\<lparr>component_states := (component_states s)(k \<mapsto> snd item)\<rparr>) p))))"

definition handle_client_message :: "addr \<Rightarrow> string \<Rightarrow> pyval \<Rightarrow> process \<Rightarrow> pyval outcome" where
  "handle_client_message self client_id message p =
     (case message of
        PDict m \<Rightarrow>
          if dict_get m ''type'' = Some (PStr ''component_update'') then
            (case dict_get_default m ''states'' (PDict []) of
               PDict states \<Rightarrow> update_states self states p
             | other \<Rightarrow> (Inl AttributeError, p))
          else (Inr PNone, p)
      | other \<Rightarrow> (Inl AttributeError, p))"

definition shutdown :: "addr \<Rightarrow> process \<Rightarrow> pyval outcome" where
  "shutdown self p =
     (Inr PNone,
      emit (Log INFO ''Script service shutting down...'')
        (upd self (\<lambda>s. s\<lparr>is_shutting_down := True\<rparr>) p))"

subsection \<open>Sequences of calls\<close>

text \<open>The two operations that write component state, on the service object \<open>self\<close>.\<close>

datatype state_op = AppendComponent pyval | HandleClientMessage string pyval

fun apply_op :: "addr \<Rightarrow> state_op \<Rightarrow> process \<Rightarrow> process" where
  "apply_op self (AppendComponent component) p = snd (append_component self component p)"
| "apply_op self (HandleClientMessage client_id message) p = snd (handle_client_message self client_id message p)"

definition run_ops :: "addr \<Rightarrow> state_op list \<Rightarrow> process \<Rightarrow> process" where
  "run_ops self ops p = fold (apply_op self) ops p"

text \<open>
  The assignments \<open>self._component_states[k] = v\<close> that an operation executes, in order:
  one for a component that was printed and has an \<open>id\<close> and a \<open>value\<close>, one for each
  item of the \<open>states\<close> of a \<open>component_update\<close> message up to the first item whose
  key is not hashable (not written) or whose log message cannot be built (written).
\<close>

fun states_upserts :: "(pyval \<times> pyval) list \<Rightarrow> (pykey \<times> pyval) list" where
  "states_upserts [] = []"
| "states_upserts (item # rest) =
     (case hash_key (fst item) of
        None \<Rightarrow> []
      | Some k \<Rightarrow>
          (k, snd item) #
          (case debug_message ''Updated component state: '' (fst item) '' = '' (snd item) of
             Inl e \<Rightarrow> []
           | Inr message \<Rightarrow> states_upserts rest))"

fun upserts :: "state_op \<Rightarrow> (pykey \<times> pyval) list" where
  "upserts (AppendComponent component) =
     (case component of
        PDict d \<Rightarrow>
          (case (print_component component, dict_get d ''id'', dict_get d ''value'') of
             (Inr line, Some i, Some v) \<Rightarrow> (case hash_key i of Some k \<Rightarrow> [(k, v)] | None \<Rightarrow> [])
           | other \<Rightarrow> [])
      | other \<Rightarrow> [])"
| "upserts (HandleClientMessage client_id message) =
     (case message of
        PDict m \<Rightarrow>
          (if dict_get m ''type'' = Some (PStr ''component_update'') then
             (case dict_get_default m ''states'' (PDict []) of
                PDict states \<Rightarrow> states_upserts states
              | other \<Rightarrow> [])
           else [])
      | other \<Rightarrow> [])"

text \<open>The value most recently written for a key by a list of assignments.\<close>

definition last_written :: "pykey \<Rightarrow> (pykey \<times> pyval) list \<Rightarrow> pyval option" where
  "last_written k ws = map_of (rev ws) k"

text \<open>Any call of the service's interface, on the class or on an object.\<close>

datatype call =
    Initialize dm_ctor "string option"
  | GetInstance
  | ScriptPathSet "string \<Rightarrow> bool" dm_ctor addr string
  | WriteState addr state_op
  | GetComponentState addr pyval pyval
  | ClearComponents addr
  | RegisterClient addr string
  | UnregisterClient addr string
  | Shutdown addr

fun step :: "call \<Rightarrow> process \<Rightarrow> process" where
  "step (Initialize ctor path) p = snd (initialize ctor path p)"
| "step GetInstance p = p"
| "step (ScriptPathSet exists ctor self path) p = snd (script_path_set exists ctor self path p)"
| "step (WriteState self op) p = apply_op self op p"
| "step (GetComponentState self component_id dflt) p = snd (get_component_state self component_id dflt p)"
| "step (ClearComponents self) p = clear_components self p"
| "step (RegisterClient self client_id) p = snd (register_client self client_id p)"
| "step (UnregisterClient self client_id) p = snd (unregister_client self client_id p)"
| "step (Shutdown self) p = snd (shutdown self p)"

definition run :: "call list \<Rightarrow> process \<Rightarrow> process" where
  "run cs p = fold step cs p"

fun is_initialize :: "call \<Rightarrow> bool" where
  "is_initialize (Initialize ctor path) = True"
| "is_initialize c = False"

text \<open>The process before any call: no singleton, no object, nothing printed or logged.\<close>

definition initial_process :: process where
  "initial_process =
     \<lparr>cls_instance = None, objects = (\<lambda>a. new_service), next_free = 0, stdout = [], log_records = []\<rparr>"

section \<open>Selecting the implementation: the module \<open>preswald.engine.service\<close>\<close>

text \<open>
  The module-level code reads four ambient facts: whether \<open>pyodide\<close> is in
  \<open>sys.modules\<close>, the environment variable \<open>PRESWALD_HEADLESS\<close>, the call stack from the
  current frame outwards (for each frame the \<open>__name__\<close> of its globals, if it is a
  string, and the file of its code), and the entry \<open>preswald.main\<close> of \<open>sys.modules\<close>:
  absent, a module without \<open>__file__\<close>, or a module with its file. The result is the
  implementation the module binds to \<open>ServiceImpl\<close>, named by its execution context, or
  the exception that ends the module body; the module's log lines are not recorded.
\<close>

datatype execution_context = Server | Headless | Virtual

record frame =
  f_name :: "string option"
  co_filename :: string

datatype main_module = NotImported | ImportedNoFile | Imported string

record ambient =
  pyodide_in_modules :: bool
  headless_env :: "string option"
  stack :: "frame list"
  preswald_main :: main_module

text \<open>
  The loop over the frames: \<open>True\<close> when it sets \<open>IS_HEADLESS\<close>. The file of
  \<open>preswald.main\<close> is looked up only for a frame named \<open>__main__\<close> (\<open>and\<close> evaluates its
  right operand only then), and the lookup raises when the module is not in
  \<open>sys.modules\<close>.
\<close>

fun walk_frames :: "main_module \<Rightarrow> frame list \<Rightarrow> exn + bool" where
  "walk_frames mm [] = Inr False"
| "walk_frames mm (fr # outer) =
     (if f_name fr = Some ''__main__'' then
        (case mm of
           NotImported \<Rightarrow> Inl (KeyError ''preswald.main'')
         | ImportedNoFile \<Rightarrow> Inl AttributeError
         | Imported file \<Rightarrow> if co_filename fr \<noteq> file then Inr True else walk_frames mm outer)
      else walk_frames mm outer)"

definition is_headless :: "ambient \<Rightarrow> exn + bool" where
  "is_headless a =
     (if headless_env a = Some ''1'' then Inr True
      else if \<not> pyodide_in_modules a then walk_frames (preswald_main a) (stack a)
      else Inr False)"

definition service_impl :: "ambient \<Rightarrow> exn + execution_context" where
  "service_impl a =
     (case is_headless a of
        Inl e \<Rightarrow> Inl e
      | Inr headless \<Rightarrow>
          Inr (if pyodide_in_modules a then Virtual else if headless then Headless else Server))"

section \<open>Well-formed inputs\<close>

text \<open>
  A Python dictionary has hashable keys, no two of them equal. The association lists
  that stand for dictionaries are of this kind.
\<close>

definition wf_dict :: "(pyval \<times> pyval) list \<Rightarrow> bool" where
  "wf_dict d =
     (list_all (\<lambda>kv. hash_key (fst kv) \<noteq> None) d \<and> distinct (map (\<lambda>kv. hash_key (fst kv)) d))"

text \<open>The test of \<open>append_component\<close>: a dictionary with the keys \<open>id\<close> and \<open>value\<close>.\<close>

definition has_id_and_value :: "pyval \<Rightarrow> bool" where
  "has_id_and_value component =
     (case component of
        PDict d \<Rightarrow> dict_get d ''id'' \<noteq> None \<and> dict_get d ''value'' \<noteq> None
      | other \<Rightarrow> False)"

text \<open>The log record of \<open>shutdown\<close>, and how often a log holds it.\<close>

definition shutdown_event :: log_record where
  "shutdown_event = Log INFO ''Script service shutting down...''"

definition shutdown_events :: "process \<Rightarrow> nat" where
  "shutdown_events p = length (filter (\<lambda>r. r = shutdown_event) (log_records p))"

text \<open>A value whose text can be built: its conversion by \<open>str\<close> raises nothing.\<close>

definition convertible :: "pyval \<Rightarrow> bool" where
  "convertible v = (case py_str v of Inl e \<Rightarrow> False | Inr t \<Rightarrow> True)"

section \<open>Frame lemmas\<close>

lemma objects_emit [simp]: "objects (emit r p) = objects p"
  by (simp add: emit_def)

lemma objects_print_line [simp]: "objects (print_line l p) = objects p"
  by (simp add: print_line_def)

lemma objects_upd_same [simp]: "objects (upd self f p) self = f (objects p self)"
  by (simp add: upd_def)

lemma objects_upd_other: "a \<noteq> self \<Longrightarrow> objects (upd a f p) self = objects p self"
  by (simp add: upd_def)

lemma cls_instance_emit [simp]: "cls_instance (emit r p) = cls_instance p"
  by (simp add: emit_def)

lemma cls_instance_print_line [simp]: "cls_instance (print_line l p) = cls_instance p"
  by (simp add: print_line_def)

lemma cls_instance_upd [simp]: "cls_instance (upd a f p) = cls_instance p"
  by (simp add: upd_def)

section \<open>Conversion to text\<close>

declare nat_to_dec.simps [simp del]

lemma nat_to_dec_length: "10 ^ k \<le> n \<Longrightarrow> k < length (nat_to_dec n)"
proof (induction k arbitrary: n)
  case 0
  show ?case by (subst nat_to_dec.simps) simp
next
  case (Suc k)
  have "(1::nat) \<le> 10 ^ k" by simp
  then have t: "(10::nat) \<le> 10 * 10 ^ k" by linarith
  have n: "10 \<le> n" using le_trans [OF t] Suc.prems by simp
  have "10 ^ k \<le> n div 10" using Suc.prems by simp
  then have "k < length (nat_to_dec (n div 10))" by (rule Suc.IH)
  then show ?case using n by (subst nat_to_dec.simps) simp
qed

lemma int_to_dec_power: "max_str_digits \<le> k \<Longrightarrow> int_to_dec (10 ^ k) = Inl ValueError"
proof -
  assume k: "max_str_digits \<le> k"
  have "nat \<bar>(10::int) ^ k\<bar> = 10 ^ k"
    by (simp add: nat_power_eq)
  then have "k < length (nat_to_dec (nat \<bar>(10::int) ^ k\<bar>))"
    by (simp add: nat_to_dec_length)
  then show ?thesis using k by (simp add: int_to_dec_def Let_def)
qed

text \<open>The conversion of the integer \<open>10 ^ 4300\<close>, of 4301 digits, raises \<open>ValueError\<close>.\<close>

lemma py_str_large: "py_str (PInt (10 ^ 4300)) = Inl ValueError"
proof -
  have "int_to_dec (10 ^ 4300) = Inl ValueError"
    by (rule int_to_dec_power) (simp add: max_str_digits_def)
  then show ?thesis by (simp only: py_str_def pyval.case py_repr.simps)
qed

lemma py_str_PStr [simp]: "py_str (PStr s) = Inr s"
  by (simp add: py_str_def)

lemma convertible_PStr [simp]: "convertible (PStr s)"
  by (simp add: convertible_def)

lemma debug_message_convertible:
  "convertible a \<Longrightarrow> convertible b \<Longrightarrow> \<exists>m. debug_message prefix a sep b = Inr m"
  by (auto simp: debug_message_def on_str_def convertible_def split: sum.splits)

lemma debug_message_Inr:
  "debug_message prefix a sep b = Inr m \<Longrightarrow> convertible a \<and> convertible b"
  by (auto simp: debug_message_def on_str_def convertible_def split: sum.splits)

lemma debug_message_str:
  "debug_message prefix (PStr s) sep b = (case py_str b of Inl e \<Rightarrow> Inl e | Inr t \<Rightarrow> Inr (prefix @ s @ sep @ t))"
  by (simp add: debug_message_def on_str_def split: sum.splits)

section \<open>The component state store keeps the last write\<close>

lemma last_written_Nil [simp]: "last_written k [] = None"
  by (simp add: last_written_def)

lemma last_written_append:
  "last_written k (ws @ ws') =
     (case last_written k ws' of Some v \<Rightarrow> Some v | None \<Rightarrow> last_written k ws)"
  unfolding last_written_def by (simp add: map_add_def)

lemma last_written_Cons:
  "last_written k ((k', v) # ws) =
     (case last_written k ws of Some v' \<Rightarrow> Some v' | None \<Rightarrow> if k = k' then Some v else None)"
  unfolding last_written_def by (simp add: map_add_def split: option.splits)

lemma last_written_mem: "last_written k ws = Some v \<Longrightarrow> (k, v) \<in> set ws"
  unfolding last_written_def by (metis map_of_SomeD set_rev)

text \<open>Each operation changes the store of \<open>self\<close> by exactly its assignments.\<close>

lemma states_update_states:
  "component_states (objects (snd (update_states self sts p)) self) k =
     (case last_written k (states_upserts sts) of
        Some v \<Rightarrow> Some v
      | None \<Rightarrow> component_states (objects p self) k)"
proof (induction sts arbitrary: p)
  case Nil
  show ?case by simp
next
  case (Cons item sts)
  show ?case
  proof (cases "hash_key (fst item)")
    case None
    then show ?thesis by simp
  next
    case (Some k')
    show ?thesis
    proof (cases "debug_message ''Updated component state: '' (fst item) '' = '' (snd item)")
      case (Inl e)
      then show ?thesis using Some by (simp add: last_written_Cons)
    next
      case (Inr message)
      then show ?thesis
        using Some by (simp add: Cons.IH last_written_Cons split: option.splits)
    qed
  qed
qed

lemma states_append_component:
  "component_states (objects (snd (append_component self c p)) self) k =
     (case last_written k (upserts (AppendComponent c)) of
        Some v \<Rightarrow> Some v
      | None \<Rightarrow> component_states (objects p self) k)"
  by (simp add: append_component_def Let_def last_written_Cons
           split: sum.splits pyval.splits option.splits)

lemma states_handle_client_message:
  "component_states (objects (snd (handle_client_message self cid m p)) self) k =
     (case last_written k (upserts (HandleClientMessage cid m)) of
        Some v \<Rightarrow> Some v
      | None \<Rightarrow> component_states (objects p self) k)"
  by (simp add: handle_client_message_def states_update_states split: pyval.splits)

lemma states_apply_op:
  "component_states (objects (apply_op self op p) self) k =
     (case last_written k (upserts op) of
        Some v \<Rightarrow> Some v
      | None \<Rightarrow> component_states (objects p self) k)"
  by (cases op) (simp_all add: states_append_component states_handle_client_message)

lemma states_run_ops:
  "component_states (objects (run_ops self ops p) self) k =
     (case last_written k (concat (map upserts ops)) of
        Some v \<Rightarrow> Some v
      | None \<Rightarrow> component_states (objects p self) k)"
proof (induction ops arbitrary: p)
  case Nil
  show ?case by (simp add: run_ops_def)
next
  case (Cons op ops)
  have "run_ops self (op # ops) p = run_ops self ops (apply_op self op p)"
    by (simp add: run_ops_def)
  then show ?case
    by (simp add: Cons.IH states_apply_op last_written_append split: option.splits)
qed

text \<open>
  A read of a string identifier looks the value up, falls back on the default, and
  returns it unless the text of the value cannot be built for the log message.
\<close>

lemma get_component_state_str:
  "fst (get_component_state self (PStr cid) d p) =
     (let val = (case component_states (objects p self) (KStr cid) of Some v \<Rightarrow> v | None \<Rightarrow> d)
      in case py_str val of Inl e \<Rightarrow> Inl e | Inr t \<Rightarrow> Inr val)"
  by (simp add: get_component_state_def debug_message_str Let_def split: sum.splits)

lemma get_component_state_reads_last_write:
  assumes "component_states (objects p self) = Map.empty"
  shows "fst (get_component_state self (PStr cid) d (run_ops self ops p)) =
     (let val = (case last_written (KStr cid) (concat (map upserts ops)) of Some v \<Rightarrow> v | None \<Rightarrow> d)
      in case py_str val of Inl e \<Rightarrow> Inl e | Inr t \<Rightarrow> Inr val)"
  by (simp add: get_component_state_str states_run_ops assms Let_def split: option.splits)

text \<open>
  C1. A read with a default that is an integer of more than 4300 digits raises
  \<open>ValueError\<close> instead of returning the default: on a new singleton,
  \<open>get_component_state("speed", 10 ** 4300)\<close>. So does a read of an identifier whose
  last written value is such an integer: \<open>handle_client_message\<close> writes the value of
  \<open>a\<close> (and raises), and \<open>get_component_state("a", None)\<close> raises as well.
\<close>

theorem get_component_state_raises_for_large_integer:
  "fst (get_component_state 0 (PStr ''speed'') (PInt (10 ^ 4300))
          (snd (initialize (\<lambda>args. None) None initial_process))) = Inl ValueError
   \<and> component_states (objects
          (snd (handle_client_message 0 ''c1''
             (PDict [(PStr ''type'', PStr ''component_update''),
                     (PStr ''states'', PDict [(PStr ''a'', PInt (10 ^ 4300))])])
             (snd (initialize (\<lambda>args. None) None initial_process)))) 0) (KStr ''a'')
       = Some (PInt (10 ^ 4300))
   \<and> fst (get_component_state 0 (PStr ''a'') PNone
          (snd (handle_client_message 0 ''c1''
             (PDict [(PStr ''type'', PStr ''component_update''),
                     (PStr ''states'', PDict [(PStr ''a'', PInt (10 ^ 4300))])])
             (snd (initialize (\<lambda>args. None) None initial_process))))) = Inl ValueError"
proof -
  define big :: int where "big = 10 ^ 4300"
  define p0 where "p0 = snd (initialize (\<lambda>args. None) None initial_process)"
  have b: "py_str (PInt big) = Inl ValueError"
    unfolding big_def by (rule py_str_large)
  have e: "component_states (objects p0 0) = Map.empty"
    by (simp add: p0_def initialize_def initial_process_def construct_def new_service_def)
  have m: "debug_message ''Updated component state: '' (PStr ''a'') '' = '' (PInt big) = Inl ValueError"
    by (simp add: debug_message_str b)
  have w: "component_states (objects
          (snd (handle_client_message 0 ''c1''
             (PDict [(PStr ''type'', PStr ''component_update''),
                     (PStr ''states'', PDict [(PStr ''a'', PInt big)])]) p0)) 0) (KStr ''a'')
       = Some (PInt big)"
    by (simp add: handle_client_message_def dict_get_def dict_get_default_def m)
  have "fst (get_component_state 0 (PStr ''speed'') (PInt big) p0) = Inl ValueError"
    by (simp add: get_component_state_str e b)
  moreover have "fst (get_component_state 0 (PStr ''a'') PNone
          (snd (handle_client_message 0 ''c1''
             (PDict [(PStr ''type'', PStr ''component_update''),
                     (PStr ''states'', PDict [(PStr ''a'', PInt big)])]) p0))) = Inl ValueError"
    by (simp only: get_component_state_str w Let_def option.case b sum.case)
  ultimately show ?thesis
    using w unfolding big_def p0_def by blast
qed

section \<open>Console lines\<close>

text \<open>
  C6. Appending the slider \<open>{type: "slider", label: "Speed", value: 5}\<close> prints exactly
  the line \<open>[slider] Speed: 5\<close>, and appending the table
  \<open>{type: "table", title: "Results", data: [1, 2, 3]}\<close> prints exactly the line
  \<open>[table] Results (3 rows)\<close>. For a table with any title and any list of rows the line
  is made of the title and the number of rows only.
\<close>

theorem append_component_prints_slider_and_table:
  "stdout (snd (append_component self
      (PDict [(PStr ''type'', PStr ''slider''), (PStr ''label'', PStr ''Speed''), (PStr ''value'', PInt 5)]) p))
     = stdout p @ [cps ''[slider] Speed: 5'']
   \<and> stdout (snd (append_component self
      (PDict [(PStr ''type'', PStr ''table''), (PStr ''title'', PStr ''Results''),
              (PStr ''data'', PList [PInt 1, PInt 2, PInt 3])]) p))
     = stdout p @ [cps ''[table] Results (3 rows)'']
   \<and> stdout (snd (append_component self
      (PDict [(PStr ''type'', PStr ''table''), (PStr ''title'', PStr title), (PStr ''data'', PList rows)]) p))
     = stdout p @ [cps (''[table] '' @ title @ '' ('' @ nat_to_dec (length rows) @ '' rows)'')]"
proof -
  have five: "py_str (PInt 5) = Inr ''5''"
    by (simp add: py_str_def int_to_dec_def max_str_digits_def nat_to_dec.simps)
  have slider: "print_component
      (PDict [(PStr ''type'', PStr ''slider''), (PStr ''label'', PStr ''Speed''), (PStr ''value'', PInt 5)])
      = Inr (cps ''[slider] Speed: 5'')"
    by (simp add: print_component_def dict_get_default_def dict_get_def on_str_def five)
  have table: "print_component
      (PDict [(PStr ''type'', PStr ''table''), (PStr ''title'', PStr t), (PStr ''data'', PList rs)])
      = Inr (cps (''[table] '' @ t @ '' ('' @ nat_to_dec (length rs) @ '' rows)''))" for t rs
    by (simp add: print_component_def dict_get_default_def dict_get_def on_str_def)
  have three: "nat_to_dec (length [PInt 1, PInt 2, PInt 3]) = ''3''"
    by (simp add: nat_to_dec.simps)
  have out: "print_component c = Inr l \<Longrightarrow> stdout (snd (append_component self c p)) = stdout p @ [l]" for c l
    by (simp add: append_component_def print_line_def upd_def emit_def Let_def
          split: pyval.splits option.splits)
  show ?thesis
    using out [OF slider] out [OF table [of "''Results''" "[PInt 1, PInt 2, PInt 3]"]] out [OF table [of title rows]]
    unfolding three by simp
qed

section \<open>The singleton\<close>

lemma cls_instance_initialize_data_manager [simp]:
  "cls_instance (snd (initialize_data_manager ctor a path p)) = cls_instance p"
  by (simp add: initialize_data_manager_def Let_def split: option.splits)

lemma cls_instance_update_states [simp]:
  "cls_instance (snd (update_states self sts p)) = cls_instance p"
  by (induction self sts p rule: update_states.induct) (simp_all split: option.splits sum.splits)

lemma cls_instance_append_component [simp]:
  "cls_instance (snd (append_component self c p)) = cls_instance p"
  by (simp add: append_component_def Let_def split: sum.splits pyval.splits option.splits)

lemma cls_instance_handle_client_message [simp]:
  "cls_instance (snd (handle_client_message self cid m p)) = cls_instance p"
  by (simp add: handle_client_message_def split: pyval.splits)

lemma cls_instance_apply_op [simp]: "cls_instance (apply_op self op p) = cls_instance p"
  by (cases op) simp_all

text \<open>With a singleton in place, \<open>initialize\<close> returns it and does nothing else.\<close>

lemma initialize_existing: "cls_instance p = Some a \<Longrightarrow> initialize ctor path p = (Inr a, p)"
  by (simp add: initialize_def)

text \<open>Without one, the new object is the singleton, whether or not \<open>initialize\<close> then raises.\<close>

lemma cls_instance_initialize_fresh:
  "cls_instance p = None \<Longrightarrow> cls_instance (snd (initialize ctor path p)) = Some (next_free p)"
  by (simp add: initialize_def construct_def Let_def split: option.splits prod.splits sum.splits)
     (auto dest: arg_cong [where f = "\<lambda>r. cls_instance (snd r)"])

lemma initialize_fresh_result:
  "cls_instance p = None \<Longrightarrow> fst (initialize ctor path p) = Inr a \<Longrightarrow> a = next_free p"
  by (auto simp: initialize_def construct_def Let_def
        split: option.splits prod.splits sum.splits if_splits)

lemma initialize_returns_singleton:
  assumes "fst (initialize ctor path p) = Inr a"
  shows "cls_instance (snd (initialize ctor path p)) = Some a"
proof (cases "cls_instance p")
  case None
  then show ?thesis
    using cls_instance_initialize_fresh [OF None] initialize_fresh_result [OF None assms] by simp
next
  case (Some b)
  then show ?thesis using assms by (simp add: initialize_existing)
qed

lemma cls_instance_step_other:
  "\<not> is_initialize c \<Longrightarrow> cls_instance (step c p) = cls_instance p"
  by (cases c)
     (simp_all add: script_path_set_def get_component_state_def clear_components_def
        register_client_def unregister_client_def shutdown_def Let_def
        split: option.splits sum.splits)

lemma cls_instance_step_kept:
  "cls_instance p = Some a \<Longrightarrow> cls_instance (step c p) = Some a"
  by (cases "is_initialize c")
     (auto simp: cls_instance_step_other initialize_existing elim: is_initialize.elims)

lemma cls_instance_run_kept:
  "cls_instance p = Some a \<Longrightarrow> cls_instance (run cs p) = Some a"
  unfolding run_def
  by (induction cs arbitrary: p) (simp_all add: cls_instance_step_kept)

lemma cls_instance_run_other:
  "\<forall>c \<in> set cs. \<not> is_initialize c \<Longrightarrow> cls_instance (run cs p) = cls_instance p"
  unfolding run_def
  by (induction cs arbitrary: p) (simp_all add: cls_instance_step_other)

text \<open>
  C2. While no \<open>initialize\<close> call has been made (no singleton, and any calls other than
  \<open>initialize\<close>), \<open>get_instance\<close> raises the \<open>RuntimeError\<close> that says the service is not
  initialised. Once \<open>initialize\<close> has returned an object, \<open>get_instance\<close> returns the
  same address after any further calls of the interface, and so does every later
  \<open>initialize\<close>.
\<close>

theorem get_instance_singleton:
  "(cls_instance p = None \<and> (\<forall>c \<in> set cs. \<not> is_initialize c) \<longrightarrow>
      get_instance (run cs p) =
        Inl (RuntimeError ''ScriptService not initialized. Did you call initialize()?''))
   \<and> (fst (initialize ctor path p) = Inr a \<longrightarrow>
        get_instance (run cs' (snd (initialize ctor path p))) = Inr a
      \<and> fst (initialize ctor' path' (run cs' (snd (initialize ctor path p)))) = Inr a)"
proof (intro conjI impI)
  assume "cls_instance p = None \<and> (\<forall>c \<in> set cs. \<not> is_initialize c)"
  then have "cls_instance (run cs p) = None"
    using cls_instance_run_other [of cs p] by simp
  then show "get_instance (run cs p) =
      Inl (RuntimeError ''ScriptService not initialized. Did you call initialize()?'')"
    by (simp add: get_instance_def)
next
  assume "fst (initialize ctor path p) = Inr a"
  then have k: "cls_instance (run cs' (snd (initialize ctor path p))) = Some a"
    by (intro cls_instance_run_kept initialize_returns_singleton)
  show "get_instance (run cs' (snd (initialize ctor path p))) = Inr a"
    using k by (simp add: get_instance_def)
  show "fst (initialize ctor' path' (run cs' (snd (initialize ctor path p)))) = Inr a"
    using k by (simp add: initialize_existing)
qed

theorem get_instance_singleton_witness:
  "get_instance (run [GetInstance, RegisterClient 0 ''c1''] initial_process) =
     Inl (RuntimeError ''ScriptService not initialized. Did you call initialize()?'')
   \<and> fst (initialize (\<lambda>args. None) None initial_process) = Inr 0
   \<and> get_instance (run [WriteState 0 (AppendComponent (PStr ''hello'')), Shutdown 0, GetInstance]
        (snd (initialize (\<lambda>args. None) None initial_process))) = Inr 0
   \<and> fst (initialize (\<lambda>args. None) (Some ''app.py'')
        (run [WriteState 0 (AppendComponent (PStr ''hello'')), Shutdown 0, GetInstance]
          (snd (initialize (\<lambda>args. None) None initial_process)))) = Inr 0"
proof -
  have n: "cls_instance initial_process = None
      \<and> (\<forall>c \<in> set [GetInstance, RegisterClient 0 ''c1'']. \<not> is_initialize c)"
    by (simp add: initial_process_def)
  have i: "fst (initialize (\<lambda>args. None) None initial_process) = Inr 0"
    by (simp add: initialize_def initial_process_def construct_def)
  show ?thesis
    using n i
      get_instance_singleton [of initial_process "[GetInstance, RegisterClient 0 ''c1'']"
        "\<lambda>args. None" None 0
        "[WriteState 0 (AppendComponent (PStr ''hello'')), Shutdown 0, GetInstance]"
        "\<lambda>args. None" "Some ''app.py''"]
    by blast
qed

section \<open>Selecting the implementation\<close>

lemma service_impl_virtual: "pyodide_in_modules a \<Longrightarrow> service_impl a = Inr Virtual"
  by (simp add: service_impl_def is_headless_def)

lemma service_impl_headless_env:
  "\<not> pyodide_in_modules a \<Longrightarrow> headless_env a = Some ''1'' \<Longrightarrow> service_impl a = Inr Headless"
  by (simp add: service_impl_def is_headless_def)

lemma walk_frames_imported:
  "walk_frames (Imported file) frs =
     Inr (\<exists>fr \<in> set frs. f_name fr = Some ''__main__'' \<and> co_filename fr \<noteq> file)"
  by (induction frs) auto

lemma walk_frames_no_main:
  "\<forall>fr \<in> set frs. f_name fr \<noteq> Some ''__main__'' \<Longrightarrow> walk_frames mm frs = Inr False"
  by (induction frs) auto

lemma service_impl_stack:
  assumes "\<not> pyodide_in_modules a" and "headless_env a \<noteq> Some ''1''"
    and "preswald_main a = Imported file"
  shows "service_impl a =
     Inr (if \<exists>fr \<in> set (stack a). f_name fr = Some ''__main__'' \<and> co_filename fr \<noteq> file
          then Headless else Server)"
  using assms by (simp add: service_impl_def is_headless_def walk_frames_imported)

lemma service_impl_no_main_frame:
  assumes "\<not> pyodide_in_modules a" and "headless_env a \<noteq> Some ''1''"
    and "\<forall>fr \<in> set (stack a). f_name fr \<noteq> Some ''__main__''"
  shows "service_impl a = Inr Server"
  using assms by (simp add: service_impl_def is_headless_def walk_frames_no_main)

text \<open>
  With \<open>preswald.main\<close> not imported, the first frame named \<open>__main__\<close> ends the selection
  with the \<open>KeyError\<close> of the lookup in \<open>sys.modules\<close>, whatever the frames further out.
\<close>

lemma walk_frames_not_imported:
  "walk_frames NotImported frs =
     (if \<exists>fr \<in> set frs. f_name fr = Some ''__main__'' then Inl (KeyError ''preswald.main'')
      else Inr False)"
  by (induction frs) auto

text \<open>
  C3. A script run directly, without the marker of the browser interpreter and without
  \<open>PRESWALD_HEADLESS\<close>, in a process that has not imported \<open>preswald.main\<close>: the selection
  raises \<open>KeyError\<close>; it yields neither \<open>Server\<close> nor \<open>Headless\<close>.
\<close>

theorem service_impl_raises_without_preswald_main:
  "service_impl
     \<lparr>pyodide_in_modules = False, headless_env = None,
      stack = [\<lparr>f_name = Some ''preswald.engine.service'', co_filename = ''preswald/engine/service.py''\<rparr>,
               \<lparr>f_name = Some ''__main__'', co_filename = ''app.py''\<rparr>],
      preswald_main = NotImported\<rparr>
   = Inl (KeyError ''preswald.main'')"
  by (simp add: service_impl_def is_headless_def)

section \<open>Client messages\<close>

lemma get_component_state_stored:
  assumes "hash_key cid = Some k" and "component_states (objects p self) k = Some v"
    and "convertible cid" and "convertible v"
  shows "fst (get_component_state self cid d p) = Inr v"
proof -
  obtain m where "debug_message ''[STATE] Getting state for '' cid '': '' v = Inr m"
    using debug_message_convertible [OF assms(3) assms(4)] by blast
  then show ?thesis using assms(1) assms(2) by (simp add: get_component_state_def)
qed

lemma update_states_returns:
  "list_all (\<lambda>item. hash_key (fst item) \<noteq> None \<and> convertible (fst item) \<and> convertible (snd item)) sts
   \<Longrightarrow> fst (update_states self sts p) = Inr PNone"
proof (induction sts arbitrary: p)
  case Nil
  show ?case by simp
next
  case (Cons item sts)
  obtain k where k: "hash_key (fst item) = Some k" using Cons.prems by auto
  obtain m where m: "debug_message ''Updated component state: '' (fst item) '' = '' (snd item) = Inr m"
    using debug_message_convertible [of "fst item" "snd item"] Cons.prems by auto
  show ?case using Cons.prems by (simp add: k m Cons.IH)
qed

lemma states_upserts_all:
  "list_all (\<lambda>item. hash_key (fst item) \<noteq> None \<and> convertible (fst item) \<and> convertible (snd item)) sts
   \<Longrightarrow> states_upserts sts = map (\<lambda>item. (the (hash_key (fst item)), snd item)) sts"
proof (induction sts)
  case Nil
  show ?case by simp
next
  case (Cons item sts)
  obtain k where k: "hash_key (fst item) = Some k" using Cons.prems by auto
  obtain m where m: "debug_message ''Updated component state: '' (fst item) '' = '' (snd item) = Inr m"
    using debug_message_convertible [of "fst item" "snd item"] Cons.prems by auto
  show ?case using Cons.prems by (simp add: k m Cons.IH)
qed

lemma last_written_distinct:
  assumes "distinct (map fst ws)" and "(k, v) \<in> set ws"
  shows "last_written k ws = Some v"
proof -
  have "distinct (map fst (rev ws))" using assms(1) by (simp add: rev_map [symmetric])
  moreover have "(k, v) \<in> set (rev ws)" using assms(2) by simp
  ultimately show ?thesis unfolding last_written_def by (simp add: map_of_eq_Some_iff)
qed

lemma wf_dict_last_written:
  assumes "wf_dict sts" and "list_all (\<lambda>item. convertible (fst item) \<and> convertible (snd item)) sts"
    and "(cid, v) \<in> set sts"
  shows "\<exists>k. hash_key cid = Some k \<and> last_written k (states_upserts sts) = Some v"
proof -
  have h: "list_all (\<lambda>kv. hash_key (fst kv) \<noteq> None) sts"
    and d: "distinct (map (\<lambda>kv. hash_key (fst kv)) sts)"
    using assms(1) by (simp_all add: wf_dict_def)
  have a: "list_all (\<lambda>item. hash_key (fst item) \<noteq> None \<and> convertible (fst item) \<and> convertible (snd item)) sts"
    using h assms(2) by (auto simp: list_all_iff)
  obtain k where k: "hash_key cid = Some k"
    using h assms(3) by (auto simp: list_all_iff)
  have u: "states_upserts sts = map (\<lambda>kv. (the (hash_key (fst kv)), snd kv)) sts"
    by (rule states_upserts_all [OF a])
  have "map fst (states_upserts sts) = map (\<lambda>kv. the (hash_key (fst kv))) sts"
    by (simp add: u comp_def)
  also have "\<dots> = map the (map (\<lambda>kv. hash_key (fst kv)) sts)"
    by (simp add: comp_def)
  finally have m: "map fst (states_upserts sts) = map the (map (\<lambda>kv. hash_key (fst kv)) sts)" .
  have i: "inj_on the (set (map (\<lambda>kv. hash_key (fst kv)) sts))"
    using h by (auto simp: inj_on_def list_all_iff) (metis fst_conv option.sel)
  have "distinct (map the (map (\<lambda>kv. hash_key (fst kv)) sts))"
    using d i by (subst distinct_map) blast
  then have "distinct (map fst (states_upserts sts))"
    by (simp only: m)
  moreover have "(k, v) \<in> set (states_upserts sts)"
    unfolding u using assms(3) k by force
  ultimately show ?thesis using k by (simp add: last_written_distinct)
qed

text \<open>
  A message of type \<open>component_update\<close> whose \<open>states\<close> is a dictionary of items with
  buildable text: the call returns, and a read of each item's identifier returns the
  item's value. A message of any other type leaves the process as it was.
\<close>

lemma handle_client_message_upserts_convertible_states:
  assumes "dict_get m ''type'' = Some (PStr ''component_update'')"
    and "dict_get_default m ''states'' (PDict []) = PDict states"
    and "wf_dict states"
    and "list_all (\<lambda>item. convertible (fst item) \<and> convertible (snd item)) states"
  shows "fst (handle_client_message self client_id (PDict m) p) = Inr PNone"
    and "\<forall>(cid, v) \<in> set states.
           fst (get_component_state self cid d (snd (handle_client_message self client_id (PDict m) p)))
             = Inr v"
proof -
  have h: "handle_client_message self client_id (PDict m) p = update_states self states p"
    using assms(1) assms(2) by (simp add: handle_client_message_def)
  have u: "upserts (HandleClientMessage client_id (PDict m)) = states_upserts states"
    using assms(1) assms(2) by simp
  have a: "list_all (\<lambda>item. hash_key (fst item) \<noteq> None \<and> convertible (fst item) \<and> convertible (snd item)) states"
    using assms(3) assms(4) by (auto simp: wf_dict_def list_all_iff)
  show "fst (handle_client_message self client_id (PDict m) p) = Inr PNone"
    by (simp add: h update_states_returns [OF a])
  show "\<forall>(cid, v) \<in> set states.
      fst (get_component_state self cid d (snd (handle_client_message self client_id (PDict m) p))) = Inr v"
  proof (clarify)
    fix cid v
    assume in_states: "(cid, v) \<in> set states"
    then obtain k where k: "hash_key cid = Some k"
      and l: "last_written k (states_upserts states) = Some v"
      using wf_dict_last_written [OF assms(3) assms(4)] by blast
    have c: "convertible cid" "convertible v"
      using assms(4) in_states by (auto simp: list_all_iff)
    have s: "component_states (objects (snd (handle_client_message self client_id (PDict m) p)) self) k = Some v"
      by (simp add: states_handle_client_message u l del: upserts.simps)
    show "fst (get_component_state self cid d (snd (handle_client_message self client_id (PDict m) p))) = Inr v"
      by (rule get_component_state_stored [OF k s c])
  qed
qed

lemma handle_client_message_other_type:
  "dict_get m ''type'' \<noteq> Some (PStr ''component_update'') \<Longrightarrow>
   handle_client_message self client_id (PDict m) p = (Inr PNone, p)"
  by (simp add: handle_client_message_def)

text \<open>
  C4. A \<open>component_update\<close> message with the states \<open>{"a": 10 ** 4300, "b": 2}\<close>, on a new
  singleton: \<open>handle_client_message\<close> raises \<open>ValueError\<close> after it has written \<open>a\<close>,
  the pair of \<open>b\<close> is never written, and \<open>get_component_state("b", None)\<close> returns
  \<open>None\<close>, not 2.
\<close>

theorem handle_client_message_raises_for_large_integer:
  "fst (handle_client_message 0 ''c1''
          (PDict [(PStr ''type'', PStr ''component_update''),
                  (PStr ''states'', PDict [(PStr ''a'', PInt (10 ^ 4300)), (PStr ''b'', PInt 2)])])
          (snd (initialize (\<lambda>args. None) None initial_process))) = Inl ValueError
   \<and> component_states (objects
          (snd (handle_client_message 0 ''c1''
             (PDict [(PStr ''type'', PStr ''component_update''),
                     (PStr ''states'', PDict [(PStr ''a'', PInt (10 ^ 4300)), (PStr ''b'', PInt 2)])])
             (snd (initialize (\<lambda>args. None) None initial_process)))) 0) (KStr ''b'') = None
   \<and> fst (get_component_state 0 (PStr ''b'') PNone
          (snd (handle_client_message 0 ''c1''
             (PDict [(PStr ''type'', PStr ''component_update''),
                     (PStr ''states'', PDict [(PStr ''a'', PInt (10 ^ 4300)), (PStr ''b'', PInt 2)])])
             (snd (initialize (\<lambda>args. None) None initial_process))))) = Inr PNone"
proof -
  define big :: int where "big = 10 ^ 4300"
  define p0 where "p0 = snd (initialize (\<lambda>args. None) None initial_process)"
  let ?message = "PDict [(PStr ''type'', PStr ''component_update''),
                  (PStr ''states'', PDict [(PStr ''a'', PInt big), (PStr ''b'', PInt 2)])]"
  have b: "py_str (PInt big) = Inl ValueError"
    unfolding big_def by (rule py_str_large)
  have e: "component_states (objects p0 0) = Map.empty"
    by (simp add: p0_def initialize_def initial_process_def construct_def new_service_def)
  have m: "debug_message ''Updated component state: '' (PStr ''a'') '' = '' (PInt big) = Inl ValueError"
    by (simp add: debug_message_str b)
  have r: "fst (handle_client_message 0 ''c1'' ?message p0) = Inl ValueError"
    by (simp add: handle_client_message_def dict_get_def dict_get_default_def m)
  have w: "component_states (objects (snd (handle_client_message 0 ''c1'' ?message p0)) 0) (KStr ''b'') = None"
    by (simp add: handle_client_message_def dict_get_def dict_get_default_def m e)
  have g: "fst (get_component_state 0 (PStr ''b'') PNone (snd (handle_client_message 0 ''c1'' ?message p0)))
      = Inr PNone"
    by (simp only: get_component_state_str w Let_def option.case)
       (simp add: py_str_def)
  show ?thesis
    using r w g unfolding big_def p0_def by blast
qed

section \<open>Components without state\<close>

lemma objects_upd: "objects (upd self f p) a = (if a = self then f (objects p self) else objects p a)"
  by (simp add: upd_def)

lemma append_component_returns: "fst (append_component self component p) = Inr ()"
  by (simp add: append_component_def Let_def split: sum.splits pyval.splits option.splits)

lemma append_component_rendered:
  "rendered_components (objects (snd (append_component self component p)) self) =
     rendered_components (objects p self) @ [component]"
  by (simp add: append_component_def Let_def split: sum.splits pyval.splits option.splits)

text \<open>
  C5. A component that is no dictionary, or a dictionary without the key \<open>id\<close> or
  without the key \<open>value\<close>: \<open>append_component\<close> returns, the store of every service
  object is as before, and \<open>get_rendered_components\<close> holds under \<open>rows\<close> the earlier
  components followed by this one.
\<close>

theorem append_component_without_state:
  assumes "\<not> has_id_and_value component"
  shows "fst (append_component self component p) = Inr ()
       \<and> (\<forall>a. component_states (objects (snd (append_component self component p)) a)
              = component_states (objects p a))
       \<and> get_rendered_components self (snd (append_component self component p))
           = PDict [(PStr ''rows'', PList (rendered_components (objects p self) @ [component]))]"
proof -
  have "component_states (objects (snd (append_component self component p)) a)
          = component_states (objects p a)" for a
    using assms
    by (auto simp: append_component_def has_id_and_value_def Let_def objects_upd
          split: sum.splits pyval.splits option.splits)
  then show ?thesis
    by (simp add: append_component_returns append_component_rendered get_rendered_components_def)
qed

theorem append_component_without_state_witness:
  "\<not> has_id_and_value (PDict [(PStr ''type'', PStr ''text''), (PStr ''markdown'', PStr ''# Hi'')])
   \<and> component_states (objects (snd (append_component 0
        (PDict [(PStr ''type'', PStr ''text''), (PStr ''markdown'', PStr ''# Hi'')]) initial_process)) 0)
       = component_states (objects initial_process 0)
   \<and> get_rendered_components 0 (snd (append_component 0
        (PDict [(PStr ''type'', PStr ''text''), (PStr ''markdown'', PStr ''# Hi'')]) initial_process))
       = PDict [(PStr ''rows'', PList [PDict [(PStr ''type'', PStr ''text''), (PStr ''markdown'', PStr ''# Hi'')]])]"
proof -
  have h: "\<not> has_id_and_value (PDict [(PStr ''type'', PStr ''text''), (PStr ''markdown'', PStr ''# Hi'')])"
    by (simp add: has_id_and_value_def dict_get_def)
  have r: "rendered_components (objects initial_process 0) = []"
    by (simp add: initial_process_def new_service_def)
  show ?thesis
    using h append_component_without_state [OF h, of 0 initial_process]
    by (simp add: r)
qed

section \<open>Initialisation and shutdown\<close>

lemma initialize_data_manager_returns:
  "ctor NoArgs = None \<Longrightarrow> fst (initialize_data_manager ctor a path p) = Inr ()"
  by (simp add: initialize_data_manager_def Let_def split: option.splits)

lemma initialize_data_manager_fallback:
  assumes "ctor NoArgs = None"
    and "ctor (Paths (path_join (path_dirname path) ''preswald.toml'')
                     (path_join (path_dirname path) ''secrets.toml'')) = Some e"
  shows "data_manager (objects (snd (initialize_data_manager ctor a path p)) a) = Some (DataManager NoArgs)"
  using assms by (simp add: initialize_data_manager_def Let_def)

lemma initialize_fresh_path:
  assumes "cls_instance p = None" and "path \<noteq> []"
  shows "initialize ctor (Some path) p =
     (case initialize_data_manager ctor (next_free p) path
             (upd (next_free p) (\<lambda>s. s\<lparr>script_path := Some path\<rparr>)
                (snd (construct p)\<lparr>cls_instance := Some (next_free p)\<rparr>)) of
        (Inl e, p') \<Rightarrow> (Inl e, p')
      | (Inr u, p') \<Rightarrow> (Inr (next_free p), p'))"
  using assms by (simp add: initialize_def construct_def Let_def)

text \<open>
  When the construction of the empty collaborator \<open>DataManager()\<close> returns,
  \<open>initialize\<close> returns for every path, and an exception of the construction from the
  configuration files leaves the new singleton with the empty collaborator.
\<close>

lemma initialize_returns:
  assumes "ctor NoArgs = None"
  shows "\<exists>a. fst (initialize ctor path p) = Inr a"
proof (cases "cls_instance p")
  case (Some b)
  then show ?thesis by (simp add: initialize_existing)
next
  case None
  show ?thesis
  proof (cases "\<exists>s. path = Some s \<and> s \<noteq> []")
    case False
    then show ?thesis
      using None by (cases path) (auto simp: initialize_def construct_def Let_def)
  next
    case True
    then obtain s where s: "path = Some s" "s \<noteq> []" by blast
    let ?q = "upd (next_free p) (\<lambda>s'. s'\<lparr>script_path := Some s\<rparr>)
                (snd (construct p)\<lparr>cls_instance := Some (next_free p)\<rparr>)"
    obtain r p' where r: "initialize_data_manager ctor (next_free p) s ?q = (r, p')"
      by (cases "initialize_data_manager ctor (next_free p) s ?q")
    have "r = Inr ()"
      using assms initialize_data_manager_returns [where ctor = ctor and a = "next_free p" and path = s and p = ?q] r
      by simp
    then show ?thesis
      by (simp add: s initialize_fresh_path [OF None s(2)] r)
  qed
qed

lemma initialize_substitutes_empty_data_manager:
  assumes "ctor NoArgs = None" and n: "cls_instance p = None" and s: "s \<noteq> []"
    and f: "ctor (Paths (path_join (path_dirname s) ''preswald.toml'')
                        (path_join (path_dirname s) ''secrets.toml'')) = Some e"
  shows "fst (initialize ctor (Some s) p) = Inr (next_free p)
       \<and> data_manager (objects (snd (initialize ctor (Some s) p)) (next_free p)) = Some (DataManager NoArgs)"
proof -
  let ?q = "upd (next_free p) (\<lambda>s'. s'\<lparr>script_path := Some s\<rparr>)
              (snd (construct p)\<lparr>cls_instance := Some (next_free p)\<rparr>)"
  obtain r p' where r: "initialize_data_manager ctor (next_free p) s ?q = (r, p')"
    by (cases "initialize_data_manager ctor (next_free p) s ?q")
  have "r = Inr ()"
    using assms(1) initialize_data_manager_returns [where ctor = ctor and a = "next_free p" and path = s and p = ?q] r
    by simp
  then have i: "initialize ctor (Some s) p = (Inr (next_free p), p')"
    by (simp add: initialize_fresh_path [OF n s] r)
  have "data_manager (objects p' (next_free p)) = Some (DataManager NoArgs)"
    using assms(1) f initialize_data_manager_fallback
        [where ctor = ctor and path = s and e = e and a = "next_free p" and p = ?q] r
    by simp
  then show ?thesis by (simp add: i)
qed

text \<open>
  C7. The collaborator cannot be constructed at all, with or without arguments (its
  module does not import, say): \<open>initialize\<close> with a script path raises the exception
  of \<open>DataManager()\<close> out of the handler. The singleton is already cached by then, with
  no data manager.
\<close>

theorem initialize_raises_when_empty_data_manager_fails:
  "fst (initialize (\<lambda>args. Some (OtherException ''ImportError'')) (Some ''/srv/app/hello.py'')
          initial_process) = Inl (OtherException ''ImportError'')
   \<and> get_instance (snd (initialize (\<lambda>args. Some (OtherException ''ImportError''))
          (Some ''/srv/app/hello.py'') initial_process)) = Inr 0
   \<and> data_manager (objects (snd (initialize (\<lambda>args. Some (OtherException ''ImportError''))
          (Some ''/srv/app/hello.py'') initial_process)) 0) = None"
  by (simp add: initialize_def initial_process_def construct_def initialize_data_manager_def
        get_instance_def new_service_def Let_def)

lemma shutdown_cls_instance [simp]: "cls_instance (snd (shutdown self p)) = cls_instance p"
  by (simp add: shutdown_def)

lemma shutdown_flag [simp]: "is_shutting_down (objects (snd (shutdown self p)) self)"
  by (simp add: shutdown_def)

text \<open>
  C8. After \<open>shutdown\<close> of the singleton, \<open>initialize\<close> does not raise: it returns the
  singleton, which is still marked as shutting down, and leaves the process as
  \<open>shutdown\<close> left it.
\<close>

theorem initialize_after_shutdown_returns_singleton:
  assumes "cls_instance p = Some a"
  shows "initialize ctor path (snd (shutdown a p)) = (Inr a, snd (shutdown a p))
       \<and> is_shutting_down (objects (snd (initialize ctor path (snd (shutdown a p)))) a)"
  using assms by (simp add: initialize_existing)

theorem initialize_after_shutdown_returns_singleton_witness:
  "cls_instance (snd (initialize (\<lambda>args. None) None initial_process)) = Some 0
   \<and> initialize (\<lambda>args. None) (Some ''app.py'')
        (snd (shutdown 0 (snd (initialize (\<lambda>args. None) None initial_process))))
       = (Inr 0, snd (shutdown 0 (snd (initialize (\<lambda>args. None) None initial_process))))"
proof -
  have i: "cls_instance (snd (initialize (\<lambda>args. None) None initial_process)) = Some 0"
    by (simp add: initialize_def initial_process_def construct_def)
  show ?thesis
    using i initialize_after_shutdown_returns_singleton [OF i, of "\<lambda>args. None" "Some ''app.py''"]
    by simp
qed

text \<open>
  The claim as stated fails: \<open>initialize\<close>, then \<open>shutdown\<close>, then \<open>initialize\<close> again
  raises nothing and hands back the object that was shut down.
\<close>

theorem initialize_after_shutdown_counterexample:
  "\<not> (\<exists>e. fst (initialize (\<lambda>args. None) None
              (snd (shutdown 0 (snd (initialize (\<lambda>args. None) None initial_process))))) = Inl e)
   \<and> fst (initialize (\<lambda>args. None) None
        (snd (shutdown 0 (snd (initialize (\<lambda>args. None) None initial_process))))) = Inr 0
   \<and> is_shutting_down (objects (snd (initialize (\<lambda>args. None) None
        (snd (shutdown 0 (snd (initialize (\<lambda>args. None) None initial_process)))))) 0)"
proof -
  have i: "cls_instance (snd (shutdown 0 (snd (initialize (\<lambda>args. None) None initial_process)))) = Some 0"
    by (simp add: initialize_def initial_process_def construct_def)
  show ?thesis
    by (simp add: initialize_existing [OF i])
qed

text \<open>
  C9. Two \<open>shutdown\<close> calls in a row: neither raises, the object is marked as shutting
  down and is the same after the second call as after the first, and each call logs the
  shutdown record, so the log gains the record twice.
\<close>

theorem shutdown_twice_logs_twice:
  "fst (shutdown self p) = Inr PNone
   \<and> fst (shutdown self (snd (shutdown self p))) = Inr PNone
   \<and> is_shutting_down (objects (snd (shutdown self (snd (shutdown self p)))) self)
   \<and> objects (snd (shutdown self (snd (shutdown self p)))) = objects (snd (shutdown self p))
   \<and> log_records (snd (shutdown self (snd (shutdown self p))))
        = log_records p @ [shutdown_event, shutdown_event]
   \<and> shutdown_events (snd (shutdown self (snd (shutdown self p)))) = shutdown_events p + 2"
  by (simp add: shutdown_def shutdown_event_def shutdown_events_def emit_def upd_def)

text \<open>
  The claim as stated fails: on a new singleton two \<open>shutdown\<close> calls leave two
  shutdown records in the log, not at most one.
\<close>

theorem shutdown_twice_counterexample:
  "shutdown_events (snd (shutdown 0 (snd (shutdown 0
      (snd (initialize (\<lambda>args. None) None initial_process)))))) = 2
   \<and> \<not> shutdown_events (snd (shutdown 0 (snd (shutdown 0
      (snd (initialize (\<lambda>args. None) None initial_process)))))) \<le> 1"
  by (simp add: shutdown_def shutdown_event_def shutdown_events_def emit_def upd_def
        initialize_def initial_process_def construct_def)

text \<open>
  C10. While a singleton exists, \<open>initialize\<close> returns it and leaves the whole process
  as it was, whatever path it is given: the script path, the data manager, the component
  states and the rendered components of the object are untouched. The file system is
  not consulted: \<open>initialize\<close> does not depend on it, while the setter of \<open>script_path\<close>
  raises \<open>FileNotFoundError\<close> for a path that does not exist and changes nothing.
\<close>

theorem initialize_ignores_path_of_existing_singleton:
  assumes "cls_instance p = Some a"
  shows "initialize ctor path p = (Inr a, p)
       \<and> script_path_get a (snd (initialize ctor path p)) = script_path_get a p
       \<and> objects (snd (initialize ctor path p)) a = objects p a
       \<and> (\<not> exists path' \<longrightarrow>
            script_path_set exists ctor a path' p
              = (Inl (FileNotFoundError (''Script not found: '' @ path')), p))"
  using assms by (simp add: initialize_existing script_path_set_def)

theorem initialize_ignores_path_of_existing_singleton_witness:
  "cls_instance (snd (initialize (\<lambda>args. None) (Some ''/srv/app/hello.py'') initial_process)) = Some 0
   \<and> initialize (\<lambda>args. None) (Some ''/no/such/file.py'')
        (snd (initialize (\<lambda>args. None) (Some ''/srv/app/hello.py'') initial_process))
       = (Inr 0, snd (initialize (\<lambda>args. None) (Some ''/srv/app/hello.py'') initial_process))
   \<and> script_path_get 0 (snd (initialize (\<lambda>args. None) (Some ''/no/such/file.py'')
        (snd (initialize (\<lambda>args. None) (Some ''/srv/app/hello.py'') initial_process))))
       = Some ''/srv/app/hello.py''
   \<and> script_path_set (\<lambda>f. f = ''/srv/app/hello.py'') (\<lambda>args. None) 0 ''/no/such/file.py''
        (snd (initialize (\<lambda>args. None) (Some ''/srv/app/hello.py'') initial_process))
       = (Inl (FileNotFoundError ''Script not found: /no/such/file.py''),
          snd (initialize (\<lambda>args. None) (Some ''/srv/app/hello.py'') initial_process))"
proof -
  let ?p = "snd (initialize (\<lambda>args. None) (Some ''/srv/app/hello.py'') initial_process)"
  have i: "cls_instance ?p = Some 0"
    by (simp add: cls_instance_initialize_fresh initial_process_def)
  have s: "script_path_get 0 ?p = Some ''/srv/app/hello.py''"
    by (simp add: script_path_get_def initialize_def initial_process_def construct_def
          initialize_data_manager_def Let_def)
  have n: "\<not> (\<lambda>f. f = ''/srv/app/hello.py'') ''/no/such/file.py''"
    by simp
  show ?thesis
    using i s n
      initialize_ignores_path_of_existing_singleton
        [OF i, where ctor = "\<lambda>args. None" and path = "Some ''/no/such/file.py''"
           and exists = "\<lambda>f. f = ''/srv/app/hello.py''" and path' = "''/no/such/file.py''"]
    by simp
qed

end
